theory Spec2Isabelle
  imports Complex_Main "HOL-Library.Sublist"
begin

section \<open>Python strings\<close>

text \<open>
  A Python \<open>str\<close> is modelled as a \<open>string\<close> whose characters are the code points
  0..255 (the Latin-1 range). The string methods used by \<open>app/main.py\<close> are written
  out below with Python's behaviour on that range: \<open>lower\<close>, \<open>endswith\<close>, \<open>in\<close>,
  \<open>find\<close>, \<open>split\<close>, \<open>replace\<close>, \<open>strip\<close>, \<open>join\<close> and \<open>str(int)\<close>.
\<close>

definition is_upper :: "char \<Rightarrow> bool" where
  "is_upper c =
     (let n = (of_char c :: nat)
      in (65 \<le> n \<and> n \<le> 90) \<or> (192 \<le> n \<and> n \<le> 222 \<and> n \<noteq> 215))"

text \<open>Lower-casing a Latin-1 capital adds 32 to its code point, that is, sets bit 5.\<close>

fun set_bit5 :: "char \<Rightarrow> char" where
  "set_bit5 (Char b0 b1 b2 b3 b4 b5 b6 b7) = Char b0 b1 b2 b3 b4 True b6 b7"

definition lower_char :: "char \<Rightarrow> char" where
  "lower_char c = (if is_upper c then set_bit5 c else c)"

definition py_lower :: "string \<Rightarrow> string" where
  "py_lower s = map lower_char s"

definition py_endswith :: "string \<Rightarrow> string \<Rightarrow> bool" where
  "py_endswith s suf = suffix suf s"

text \<open>\<open>str.isspace\<close> on the code points 0..255.\<close>

definition is_space :: "char \<Rightarrow> bool" where
  "is_space c =
     (let n = (of_char c :: nat)
      in (9 \<le> n \<and> n \<le> 13) \<or> (28 \<le> n \<and> n \<le> 32) \<or> n = 133 \<or> n = 160)"

definition py_strip :: "string \<Rightarrow> string" where
  "py_strip s = rev (dropWhile is_space (rev (dropWhile is_space s)))"

text \<open>\<open>s.find(sub)\<close>: the index of the leftmost occurrence, \<open>None\<close> for Python's -1.\<close>

fun py_find :: "string \<Rightarrow> string \<Rightarrow> nat option" where
  "py_find sub [] = (if sub = [] then Some 0 else None)"
| "py_find sub (c # cs) =
     (if prefix sub (c # cs) then Some 0 else map_option Suc (py_find sub cs))"

definition py_in :: "string \<Rightarrow> string \<Rightarrow> bool" where
  "py_in sub s = (py_find sub s \<noteq> None)"

text \<open>
  \<open>s.split(sep)\<close> cuts at the leftmost occurrence of \<open>sep\<close> and goes on behind it.
  Python raises \<open>ValueError\<close> for an empty separator; the program only passes the
  literals \<open>"CODE:"\<close>, \<open>"```python"\<close> and \<open>"```"\<close>, and the model returns \<open>[s]\<close> there.
\<close>

function py_split :: "string \<Rightarrow> string \<Rightarrow> string list" where
  "py_split sep s =
     (if sep = [] then [s]
      else case py_find sep s of
             None \<Rightarrow> [s]
           | Some i \<Rightarrow> take i s # py_split sep (drop (i + length sep) s))"
  by pat_completeness auto
termination
proof (relation "measure (\<lambda>(sep, s). length s)")
  show "wf (measure (\<lambda>(sep, s). length s))" by simp
next
  fix sep s :: string and i :: nat
  assume ne: "sep \<noteq> []" and f: "py_find sep s = Some i"
  have bound: "py_find sep t = Some j \<Longrightarrow> j + length sep \<le> length t" for t j
  proof (induction t arbitrary: j)
    case Nil
    then show ?case by (simp split: if_splits)
  next
    case (Cons c cs)
    show ?case
    proof (cases "prefix sep (c # cs)")
      case True
      with Cons.prems have "j = 0" by simp
      with prefix_length_le [OF True] show ?thesis by simp
    next
      case False
      with Cons.prems obtain k where "py_find sep cs = Some k" "j = Suc k" by auto
      with Cons.IH show ?thesis by fastforce
    qed
  qed
  from bound [OF f] ne have "0 < length s" by (cases sep) auto
  then show "((sep, drop (i + length sep) s), (sep, s)) \<in> measure (\<lambda>(sep, s). length s)"
    using ne by (cases sep) auto
qed

declare py_split.simps [simp del]

fun py_join :: "string \<Rightarrow> string list \<Rightarrow> string" where
  "py_join sep [] = []"
| "py_join sep [x] = x"
| "py_join sep (x # y # ys) = x @ sep @ py_join sep (y # ys)"

text \<open>\<open>s.replace(old, new)\<close> for a non-empty \<open>old\<close>: every occurrence found from
  left to right, without overlap, is replaced.\<close>

definition py_replace :: "string \<Rightarrow> string \<Rightarrow> string \<Rightarrow> string" where
  "py_replace old new s = py_join new (py_split old s)"

text \<open>\<open>str(n)\<close> and \<open>f"{n}"\<close> of a non-negative integer: its decimal digits.\<close>

definition digit_char :: "nat \<Rightarrow> char" where
  "digit_char d = ''0123456789'' ! d"

function str_nat :: "nat \<Rightarrow> string" where
  "str_nat n = (if n < 10 then [digit_char n] else str_nat (n div 10) @ [digit_char (n mod 10)])"
  by pat_completeness auto
termination
  by (relation "measure (\<lambda>n. n)") auto

declare str_nat.simps [simp del]

section \<open>Exceptions, the libraries and the server state\<close>

text \<open>
  The program is glue around three external facilities: the \<open>ezdxf\<close> library (documents,
  queries, rendering), the hosted language model, and Python's \<open>exec\<close>. None of them is
  code of this repository, so each enters the model as a field of a record of functions
  that every operation takes as its first argument.

  An exception raised by a library call is an instance of \<open>Exception\<close>; the handlers tell
  \<open>RuntimeError\<close> from the other classes, and \<open>str(e)\<close> is the message carried.
\<close>

datatype error = RuntimeError string | OtherError string

fun str_error :: "error \<Rightarrow> string" where
  "str_error (RuntimeError m) = m"
| "str_error (OtherError m) = m"

text \<open>
  An exception in flight, as the \<open>except\<close> clauses see it: its class (\<open>RuntimeError\<close> or
  a subclass, another subclass of \<open>Exception\<close>, or a class outside \<open>Exception\<close> such as
  \<open>SystemExit\<close> and \<open>KeyboardInterrupt\<close>, which \<open>except Exception\<close> does not catch) and
  what \<open>str(e)\<close> does. Executed code can raise an object of a class of its own, whose
  \<open>__str__\<close> returns a string or raises in turn.
\<close>

datatype exc_class = RuntimeErrorClass | ExceptionClass | BaseExceptionClass

datatype thrown = Thrown exc_class str_of
  and str_of = Str string | StrRaises thrown

fun of_error :: "error \<Rightarrow> thrown" where
  "of_error (RuntimeError m) = Thrown RuntimeErrorClass (Str m)"
| "of_error (OtherError m) = Thrown ExceptionClass (Str m)"

datatype background_policy = BG_OFF | BG_WHITE

datatype color_policy = BLACK | COLOR

record configuration =
  background_policy :: background_policy
  color_policy :: color_policy
  lineweight_scaling :: real

record layer_info =
  name :: string
  color :: int
  entity_count :: nat

text \<open>
  The module globals. \<open>current_doc\<close> is \<open>None\<close> or one document object; the object
  carries its identity (a number no other object of the run has), so that assigning the
  global a new object and mutating the object it holds are different state changes.
  \<open>files\<close> is the file system the process writes to (paths to contents) and
  \<open>next_id\<close> the identity the next new object gets.
\<close>

record 'd state =
  current_doc :: "(nat \<times> 'd) option"
  current_filename :: string
  temp_dir :: string
  files :: "string \<Rightarrow> string option"
  next_id :: nat

definition initial_state :: "string \<Rightarrow> (string \<Rightarrow> string option) \<Rightarrow> 'd state" where
  "initial_state tmp fs =
     \<lparr>current_doc = None, current_filename = [], temp_dir = tmp, files = fs, next_id = 0\<rparr>"

text \<open>
  The fields, with the call of the source each stands for:
  \<^item> \<open>readfile\<close>: \<open>ezdxf.readfile\<close> on the bytes found at the path;
  \<^item> \<open>draw_layout\<close>: \<open>Frontend(RenderContext(doc), backend, config).draw_layout(doc.modelspace())\<close>
    followed by \<open>backend.get_string(layout.Page(0, 0))\<close> on a new \<open>SVGBackend\<close>;
  \<^item> \<open>doc_layers\<close>: the name and colour of each layer of \<open>doc.layers\<close>, in order;
  \<^item> \<open>query\<close>: \<open>list(doc.modelspace().query(q))\<close>;
  \<^item> \<open>modelspace\<close>: \<open>list(doc.modelspace())\<close>;
  \<^item> \<open>exec_py\<close>: \<open>exec(code, globals, {})\<close>, given the code, the names bound in the
    globals, the document bound to \<open>doc\<close> and the state of the server when the run
    starts. The code runs with the builtins, so it can import the module and assign its
    globals, and write files: the run yields the document object as it left it, the
    state of the server as it left it, and the exception it ended with, if any;
  \<^item> \<open>format_exc\<close>: \<open>traceback.format_exc()\<close> inside the handler of the exception;
  \<^item> \<open>messages_create\<close>: \<open>client.messages.create(model, max_tokens, system, messages)\<close>
    followed by \<open>response.content[0].text\<close>;
  \<^item> \<open>saveas\<close>: the bytes \<open>doc.saveas\<close> writes;
  \<^item> \<open>write_fails\<close>: the exception that opening the path for writing raises in the given
    file system (a missing directory, a name the system refuses), if any;
  \<^item> \<open>svg2rlg\<close>, \<open>drawToFile\<close>: the SVG-to-PDF conversion of svglib and reportlab;
  \<^item> \<open>index_html\<close>: the text of \<open>static/index.html\<close>, if the file exists.
\<close>

record ('d, 'e, 'g) library =
  readfile :: "string \<Rightarrow> error + 'd"
  draw_layout :: "configuration \<Rightarrow> 'd \<Rightarrow> error + string"
  doc_layers :: "'d \<Rightarrow> (string \<times> int) list"
  query :: "'d \<Rightarrow> string \<Rightarrow> error + 'e list"
  modelspace :: "'d \<Rightarrow> 'e list"
  exec_py :: "string \<Rightarrow> string list \<Rightarrow> 'd \<Rightarrow> 'd state \<Rightarrow> 'd \<times> 'd state \<times> thrown option"
  format_exc :: "thrown \<Rightarrow> string"
  messages_create :: "string \<Rightarrow> nat \<Rightarrow> string \<Rightarrow> string \<Rightarrow> error + string"
  saveas :: "'d \<Rightarrow> error + string"
  write_fails :: "(string \<Rightarrow> string option) \<Rightarrow> string \<Rightarrow> error option"
  svg2rlg :: "string \<Rightarrow> 'g option"
  drawToFile :: "'g \<Rightarrow> string"
  index_html :: "string option"

text \<open>\<open>Path(dir) / name\<close>: an absolute \<open>name\<close> replaces the directory.\<close>

definition path_join :: "string \<Rightarrow> string \<Rightarrow> string" where
  "path_join dir nm = (if prefix ''/'' nm then nm else dir @ ''/'' @ nm)"

text \<open>
  The global \<open>current_doc\<close> and the \<open>doc\<close> handed to executed code are one object. As long
  as the global still holds that object when the run ends, it holds it with the content the
  run left; if the run has assigned the global, it holds what the run assigned.
\<close>

definition object_after :: "nat \<Rightarrow> 'd \<Rightarrow> 'd state \<Rightarrow> 'd state" where
  "object_after i doc' s' =
     (case current_doc s' of
        None \<Rightarrow> s'
      | Some (i', d) \<Rightarrow> if i' = i then s'\<lparr>current_doc := Some (i, doc')\<rparr> else s')"

record chat_response =
  response :: string
  code :: string
  executed :: bool
  result :: string
  svg_updated :: bool

text \<open>
  What a handler hands back: one of its return values, an \<open>HTTPException\<close> it raised
  (status code and detail), or an exception that left the handler uncaught.
\<close>

datatype reply =
    HTMLResponse string nat
  | UploadOk string string "layer_info list"
  | SvgResponse string string
  | LayersOk "layer_info list"
  | Chat chat_response
  | FileResponse string string string
  | HTTPException nat string
  | Unhandled thrown

section \<open>Rendering and layer information\<close>

definition dxf_to_svg :: "('d, 'e, 'g) library \<Rightarrow> 'd \<Rightarrow> error + string" where
  "dxf_to_svg L doc =
     (let config = \<lparr>background_policy = BG_OFF, color_policy = BLACK,
                     lineweight_scaling = 1.5\<rparr>
      in draw_layout L config doc)"

fun layers_loop ::
  "('d, 'e, 'g) library \<Rightarrow> 'd \<Rightarrow> (string \<times> int) list \<Rightarrow> error + layer_info list" where
  "layers_loop L doc [] = Inr []"
| \<open>layers_loop L doc ((nm, col) # rest) =
     (case query L doc (''*[layer=="'' @ nm @ ''"]'') of
        Inl e \<Rightarrow> Inl e
      | Inr es \<Rightarrow>
          (case layers_loop L doc rest of
             Inl e \<Rightarrow> Inl e
           | Inr infos \<Rightarrow>
               Inr (\<lparr>name = nm, color = col, entity_count = length es\<rparr> # infos)))\<close>

definition get_layers_info :: "('d, 'e, 'g) library \<Rightarrow> 'd \<Rightarrow> error + layer_info list" where
  "get_layers_info L doc = layers_loop L doc (doc_layers L doc)"

section \<open>From the model's answer to an explanation and a snippet\<close>

definition prompt_head :: string where
  \<open>prompt_head =
       ''You are an expert at writing ezdxf Python code to modify DXF files.\<newline>''
       @ ''\<newline>''
       @ ''The current DXF document has these layers:\<newline>''\<close>

definition prompt_tail :: string where
  \<open>prompt_tail =
       ''\<newline>''
       @ ''\<newline>''
       @ ''The user will describe changes they want to make. Generate Python code that:\<newline>''
       @ ''1. Uses the variable `doc` which is already loaded as an ezdxf document\<newline>''
       @ ''2. Uses `msp = doc.modelspace()` to access entities\<newline>''
       @ ''3. Makes the requested modifications\<newline>''
       @ ''4. Does NOT save the file (that's handled separately)\<newline>''
       @ ''\<newline>''
       @ ''Common ezdxf patterns:\<newline>''
       @ ''- Query entities: `msp.query('*[layer=="LAYERNAME"]')` or `msp.query('LINE')`, `msp.query('TEXT')`\<newline>''
       @ ''- Delete entity: `msp.delete_entity(entity)`\<newline>''
       @ ''- Change text: `entity.dxf.text = "new text"` for TEXT entities\<newline>''
       @ ''- Change layer: `entity.dxf.layer = "NEW_LAYER"`\<newline>''
       @ ''- Add line: `msp.add_line((x1,y1), (x2,y2), dxfattribs={"layer": "LAYER"})`\<newline>''
       @ ''- Add text: `msp.add_text("text", dxfattribs={"layer": "LAYER", "height": 2.5}).set_placement((x, y))`\<newline>''
       @ ''\<newline>''
       @ ''Respond with:\<newline>''
       @ ''1. A brief explanation of what you'll do (1-2 sentences)\<newline>''
       @ ''2. The Python code block\<newline>''
       @ ''\<newline>''
       @ ''Format your response as:\<newline>''
       @ ''EXPLANATION: <your explanation>\<newline>''
       @ ''CODE:\<newline>''
       @ ''```python\<newline>''
       @ ''<your code>\<newline>''
       @ ''```''\<close>

text \<open>\<open>xs[i]\<close> for \<open>i \<ge> 0\<close>; out of range it raises \<open>IndexError\<close>.\<close>

definition item :: "'a list \<Rightarrow> nat \<Rightarrow> error + 'a" where
  "item xs i = (if i < length xs then Inr (xs ! i) else Inl (OtherError ''list index out of range''))"

text \<open>The expression \<open>s.split(fence)[1].split("```")[0].strip()\<close>, which the source
  writes out four times.\<close>

definition fenced :: "string \<Rightarrow> string \<Rightarrow> error + string" where
  "fenced fence s =
     (case item (py_split fence s) 1 of
        Inl e \<Rightarrow> Inl e
      | Inr behind \<Rightarrow>
          (case item (py_split ''```'' behind) 0 of
             Inl e \<Rightarrow> Inl e
           | Inr body \<Rightarrow> Inr (py_strip body)))"

text \<open>Lines 134 to 157 of \<open>generate_ezdxf_code\<close>: the parsing of the answer.\<close>

definition parse_response :: "string \<Rightarrow> error + string \<times> string" where
  "parse_response text =
     (if py_in ''EXPLANATION:'' text then
        (let parts = py_split ''CODE:'' text in
         case item parts 0 of
           Inl e \<Rightarrow> Inl e
         | Inr p0 \<Rightarrow>
             (let explanation = py_strip (py_replace ''EXPLANATION:'' [] p0) in
              if length parts > 1 then
                (case item parts 1 of
                   Inl e \<Rightarrow> Inl e
                 | Inr code_part \<Rightarrow>
                     if py_in ''```python'' code_part then
                       map_sum id (Pair explanation) (fenced ''```python'' code_part)
                     else if py_in ''```'' code_part then
                       map_sum id (Pair explanation) (fenced ''```'' code_part)
                     else Inr (explanation, py_strip code_part))
              else Inr (explanation, [])))
      else
        (let explanation = ''Executing requested changes.'' in
         if py_in ''```python'' text then
           map_sum id (Pair explanation) (fenced ''```python'' text)
         else if py_in ''```'' text then
           map_sum id (Pair explanation) (fenced ''```'' text)
         else Inr (explanation, [])))"

definition generate_ezdxf_code ::
  "('d, 'e, 'g) library \<Rightarrow> string \<Rightarrow> layer_info list \<Rightarrow> error + string \<times> string" where
  "generate_ezdxf_code L user_message layers_info =
     (let layers_desc =
            py_join ''\<newline>''
              (map (\<lambda>l. ''- '' @ name l @ '': '' @ str_nat (entity_count l) @ '' entities'')
                 layers_info);
          system_prompt = prompt_head @ layers_desc @ prompt_tail
      in case messages_create L ''claude-sonnet-4-20250514'' 1024 system_prompt user_message of
           Inl e \<Rightarrow> Inl e
         | Inr text \<Rightarrow> parse_response text)"


section \<open>Running the snippet\<close>

text \<open>
  \<open>execute_ezdxf_code\<close> returns the message, or raises; either way the document and the
  server are left as the run left them, since \<open>exec\<close> works on the objects themselves.
  In the \<open>except\<close> clause the message of the \<open>RuntimeError\<close> is built from \<open>str(e)\<close>
  first: if that raises, its exception leaves the function in place of the
  \<open>RuntimeError\<close>.
\<close>

definition execute_ezdxf_code ::
  "('d, 'e, 'g) library \<Rightarrow> string \<Rightarrow> 'd \<Rightarrow> 'd state \<Rightarrow> 'd \<times> 'd state \<times> (thrown + string)" where
  "execute_ezdxf_code L snippet doc s =
     (let exec_globals = [''doc'', ''ezdxf''];
          count_before = length (modelspace L doc)
      in case exec_py L snippet exec_globals doc s of
           (doc', s', None) \<Rightarrow>
             (let count_after = length (modelspace L doc');
                  diff = int count_after - int count_before
              in (doc', s',
                  Inr (if diff < 0 then str_nat (nat \<bar>diff\<bar>) @ '' element(s) removed''
                       else if diff > 0 then str_nat (nat diff) @ '' element(s) added''
                       else ''Changes applied successfully'')))
         | (doc', s', Some (Thrown cls how)) \<Rightarrow>
             if cls = BaseExceptionClass then (doc', s', Inl (Thrown cls how))
             else
               (case how of
                  Str m \<Rightarrow>
                    (doc', s',
                     Inl (Thrown RuntimeErrorClass
                       (Str (''Code execution failed: '' @ m @ ''\<newline>''
                             @ format_exc L (Thrown cls how)))))
                | StrRaises x \<Rightarrow> (doc', s', Inl x)))"

section \<open>The endpoints\<close>

text \<open>Every endpoint takes the state of the globals and returns its reply and the state
  it leaves.\<close>

definition serve_frontend :: "('d, 'e, 'g) library \<Rightarrow> 'd state \<Rightarrow> reply \<times> 'd state" where
  "serve_frontend L s =
     (case index_html L of
        Some html \<Rightarrow> (HTMLResponse html 200, s)
      | None \<Rightarrow> (HTMLResponse ''<h1>Frontend not found</h1>'' 404, s))"

text \<open>
  \<open>upload_dxf\<close> has one \<open>await\<close>, the read of the uploaded file's content. Before it
  stands the check of the filename; \<open>upload_process\<close> is everything behind it. The write
  of the temporary file stands before the \<open>try\<close>: an exception it raises leaves the
  handler. The document is loaded from the file just written, so \<open>readfile\<close> is given the
  content.
\<close>

definition upload_check :: "string \<Rightarrow> bool" where
  "upload_check filename = py_endswith (py_lower filename) ''.dxf''"

definition upload_process ::
  "('d, 'e, 'g) library \<Rightarrow> string \<Rightarrow> string \<Rightarrow> 'd state \<Rightarrow> reply \<times> 'd state" where
  "upload_process L filename content s =
     (let temp_path = path_join (temp_dir s) filename
      in case write_fails L (files s) temp_path of
           Some e \<Rightarrow> (Unhandled (of_error e), s)
         | None \<Rightarrow>
             (let s1 = s\<lparr>files := (files s)(temp_path \<mapsto> content)\<rparr>
              in case readfile L content of
                   Inl e \<Rightarrow> (HTTPException 500 (''Failed to process DXF: '' @ str_error e), s1)
                 | Inr doc \<Rightarrow>
                     (let s2 = s1\<lparr>current_doc := Some (next_id s1, doc),
                                   next_id := Suc (next_id s1),
                                   current_filename := filename\<rparr>
                      in case dxf_to_svg L doc of
                           Inl e \<Rightarrow>
                             (HTTPException 500 (''Failed to process DXF: '' @ str_error e), s2)
                         | Inr svg_content \<Rightarrow>
                             (case get_layers_info L doc of
                                Inl e \<Rightarrow>
                                  (HTTPException 500
                                     (''Failed to process DXF: '' @ str_error e), s2)
                              | Inr layers \<Rightarrow> (UploadOk filename svg_content layers, s2)))))"

definition upload_dxf ::
  "('d, 'e, 'g) library \<Rightarrow> string \<Rightarrow> string \<Rightarrow> 'd state \<Rightarrow> reply \<times> 'd state" where
  "upload_dxf L filename content s =
     (if \<not> upload_check filename then (HTTPException 400 ''File must be a DXF file'', s)
      else upload_process L filename content s)"

definition get_svg :: "('d, 'e, 'g) library \<Rightarrow> 'd state \<Rightarrow> reply \<times> 'd state" where
  "get_svg L s =
     (case current_doc s of
        None \<Rightarrow> (HTTPException 404 ''No DXF file loaded'', s)
      | Some (i, doc) \<Rightarrow>
          (case dxf_to_svg L doc of
             Inl e \<Rightarrow> (Unhandled (of_error e), s)
           | Inr svg_content \<Rightarrow> (SvgResponse svg_content ''image/svg+xml'', s)))"

definition get_layers :: "('d, 'e, 'g) library \<Rightarrow> 'd state \<Rightarrow> reply \<times> 'd state" where
  "get_layers L s =
     (case current_doc s of
        None \<Rightarrow> (HTTPException 404 ''No DXF file loaded'', s)
      | Some (i, doc) \<Rightarrow>
          (case get_layers_info L doc of
             Inl e \<Rightarrow> (Unhandled (of_error e), s)
           | Inr layers \<Rightarrow> (LayersOk layers, s)))"

text \<open>
  The two \<open>except\<close> clauses of \<open>chat\<close>. The second argument is the value of the local
  \<open>code\<close> if it is bound when the exception arrives (\<open>'code' in dir()\<close>). Both clauses
  build their answer from \<open>str(e)\<close>; if that raises, its exception leaves the handler, as
  does an exception outside \<open>Exception\<close>.
\<close>

fun chat_except :: "thrown \<Rightarrow> string option \<Rightarrow> reply" where
  "chat_except (Thrown RuntimeErrorClass (Str m)) bound =
     Chat \<lparr>response = ''Error executing code: '' @ m,
           code = (case bound of Some c \<Rightarrow> c | None \<Rightarrow> []),
           executed = False, result = m, svg_updated = False\<rparr>"
| "chat_except (Thrown RuntimeErrorClass (StrRaises x)) bound = Unhandled x"
| "chat_except (Thrown ExceptionClass (Str m)) bound =
     HTTPException 500 (''Chat processing failed: '' @ m)"
| "chat_except (Thrown ExceptionClass (StrRaises x)) bound = Unhandled x"
| "chat_except (Thrown BaseExceptionClass how) bound = Unhandled (Thrown BaseExceptionClass how)"

definition chat :: "('d, 'e, 'g) library \<Rightarrow> string \<Rightarrow> 'd state \<Rightarrow> reply \<times> 'd state" where
  "chat L message s =
     (case current_doc s of
        None \<Rightarrow> (HTTPException 400 ''No DXF file loaded. Please upload a file first.'', s)
      | Some (i, doc) \<Rightarrow>
          (case get_layers_info L doc of
             Inl e \<Rightarrow> (chat_except (of_error e) None, s)
           | Inr layers \<Rightarrow>
               (case generate_ezdxf_code L message layers of
                  Inl e \<Rightarrow> (chat_except (of_error e) None, s)
                | Inr (explanation, snippet) \<Rightarrow>
                    if snippet = [] then
                      (Chat \<lparr>response =
                               (if explanation \<noteq> [] then explanation
                                else ''I couldn't generate code for that request. Please try rephrasing.''),
                             code = [], executed = False, result = [], svg_updated = False\<rparr>,
                       s)
                    else
                      (case execute_ezdxf_code L snippet doc s of
                         (doc', s', Inr res) \<Rightarrow>
                           (Chat \<lparr>response = explanation, code = snippet, executed = True,
                                  result = res, svg_updated = True\<rparr>,
                            object_after i doc' s')
                       | (doc', s', Inl x) \<Rightarrow>
                           (chat_except x (Some snippet), object_after i doc' s')))))"

text \<open>\<open>doc.saveas(path)\<close> serialises the document and writes the file; either step can
  raise, and nothing in the two export handlers catches it.\<close>

definition export_dxf :: "('d, 'e, 'g) library \<Rightarrow> 'd state \<Rightarrow> reply \<times> 'd state" where
  "export_dxf L s =
     (case current_doc s of
        None \<Rightarrow> (HTTPException 404 ''No DXF file loaded'', s)
      | Some (i, doc) \<Rightarrow>
          (let export_name = py_replace ''.dxf'' ''_edited.dxf'' (current_filename s);
               export_path = path_join (temp_dir s) export_name
           in case saveas L doc of
                Inl e \<Rightarrow> (Unhandled (of_error e), s)
              | Inr bytes \<Rightarrow>
                  (case write_fails L (files s) export_path of
                     Some e \<Rightarrow> (Unhandled (of_error e), s)
                   | None \<Rightarrow>
                       (FileResponse export_path export_name ''application/dxf'',
                        s\<lparr>files := (files s)(export_path \<mapsto> bytes)\<rparr>))))"

definition export_pdf :: "('d, 'e, 'g) library \<Rightarrow> 'd state \<Rightarrow> reply \<times> 'd state" where
  "export_pdf L s =
     (case current_doc s of
        None \<Rightarrow> (HTTPException 404 ''No DXF file loaded'', s)
      | Some (i, doc) \<Rightarrow>
          (let config = \<lparr>background_policy = BG_WHITE, color_policy = COLOR,
                          lineweight_scaling = 2.0\<rparr>
           in case draw_layout L config doc of
                Inl e \<Rightarrow> (Unhandled (of_error e), s)
              | Inr svg_string \<Rightarrow>
                  (let svg_path = path_join (temp_dir s) ''temp.svg''
                   in case write_fails L (files s) svg_path of
                        Some e \<Rightarrow> (Unhandled (of_error e), s)
                      | None \<Rightarrow>
                          (let s1 = s\<lparr>files := (files s)(svg_path \<mapsto> svg_string)\<rparr>
                           in case svg2rlg L svg_string of
                                None \<Rightarrow>
                                  (HTTPException 500 ''Failed to parse SVG for PDF export'', s1)
                              | Some drawing \<Rightarrow>
                                  (let export_name =
                                         py_replace ''.dxf'' ''.pdf'' (current_filename s1);
                                       export_path = path_join (temp_dir s1) export_name
                                   in case write_fails L (files s1) export_path of
                                        Some e \<Rightarrow> (Unhandled (of_error e), s1)
                                      | None \<Rightarrow>
                                          (FileResponse export_path export_name
                                             ''application/pdf'',
                                           s1\<lparr>files := (files s1)
                                                (export_path \<mapsto> drawToFile L drawing)\<rparr>))))))"

section \<open>The server as a transition system\<close>

datatype request =
    GetRoot
  | PostUpload string string
  | GetSvg
  | GetLayers
  | PostChat string
  | GetExportDxf
  | GetExportPdf

fun handle :: "('d, 'e, 'g) library \<Rightarrow> request \<Rightarrow> 'd state \<Rightarrow> reply \<times> 'd state" where
  "handle L GetRoot s = serve_frontend L s"
| "handle L (PostUpload filename content) s = upload_dxf L filename content s"
| "handle L GetSvg s = get_svg L s"
| "handle L GetLayers s = get_layers L s"
| "handle L (PostChat message) s = chat L message s"
| "handle L GetExportDxf s = export_dxf L s"
| "handle L GetExportPdf s = export_pdf L s"

fun serve :: "('d, 'e, 'g) library \<Rightarrow> request list \<Rightarrow> 'd state \<Rightarrow> 'd state" where
  "serve L [] s = s"
| "serve L (r # rs) s = serve L rs (snd (handle L r s))"

inductive reachable :: "('d, 'e, 'g) library \<Rightarrow> 'd state \<Rightarrow> bool" for L where
  start: "reachable L (initial_state tmp fs)"
| request: "reachable L s \<Longrightarrow> reachable L (snd (handle L r s))"


section \<open>The sample drawing and a library to run it with\<close>

text \<open>
  \<open>app/sample.py\<close> builds a floor plan: four layers beside the two every new document
  has, and eighteen entities in the modelspace. Here an entity is its DXF type and its
  layer, and a drawing is its layer table and its modelspace.
\<close>

record entity =
  dxftype :: string
  layer :: string

record drawing =
  layers :: "(string \<times> int) list"
  entities :: "entity list"

definition sample_floorplan :: drawing where
  "sample_floorplan =
     \<lparr>layers = [(''0'', 7), (''Defpoints'', 7), (''WALLS'', 7), (''DOORS'', 4),
                (''DIMENSIONS'', 6), (''TEXT'', 3)],
      entities =
        [\<lparr>dxftype = ''LWPOLYLINE'', layer = ''WALLS''\<rparr>,
         \<lparr>dxftype = ''LINE'', layer = ''WALLS''\<rparr>,
         \<lparr>dxftype = ''LINE'', layer = ''WALLS''\<rparr>,
         \<lparr>dxftype = ''LINE'', layer = ''WALLS''\<rparr>,
         \<lparr>dxftype = ''ARC'', layer = ''DOORS''\<rparr>,
         \<lparr>dxftype = ''ARC'', layer = ''DOORS''\<rparr>,
         \<lparr>dxftype = ''TEXT'', layer = ''TEXT''\<rparr>,
         \<lparr>dxftype = ''TEXT'', layer = ''TEXT''\<rparr>,
         \<lparr>dxftype = ''TEXT'', layer = ''TEXT''\<rparr>,
         \<lparr>dxftype = ''TEXT'', layer = ''TEXT''\<rparr>,
         \<lparr>dxftype = ''LINE'', layer = ''DIMENSIONS''\<rparr>,
         \<lparr>dxftype = ''LINE'', layer = ''DIMENSIONS''\<rparr>,
         \<lparr>dxftype = ''LINE'', layer = ''DIMENSIONS''\<rparr>,
         \<lparr>dxftype = ''TEXT'', layer = ''DIMENSIONS''\<rparr>,
         \<lparr>dxftype = ''LINE'', layer = ''DIMENSIONS''\<rparr>,
         \<lparr>dxftype = ''LINE'', layer = ''DIMENSIONS''\<rparr>,
         \<lparr>dxftype = ''LINE'', layer = ''DIMENSIONS''\<rparr>,
         \<lparr>dxftype = ''TEXT'', layer = ''DIMENSIONS''\<rparr>]\<rparr>"

text \<open>
  A small instance of the library record, for evaluating the endpoints on concrete
  requests. Two file contents load: \<open>''FLOORPLAN''\<close> as the sample drawing and
  \<open>''EMPTY''\<close> as a drawing without entities. The rendering names the number of
  entities drawn. The file system has the temporary directory and no directory below it.
  The interpreter knows five snippets, none of which touches the globals of the server;
  the hosted model answers five messages.
\<close>

definition demo_readfile :: "string \<Rightarrow> error + drawing" where
  "demo_readfile content =
     (if content = ''FLOORPLAN'' then Inr sample_floorplan
      else if content = ''EMPTY'' then Inr \<lparr>layers = [(''0'', 7)], entities = []\<rparr>
      else Inl (OtherError ''File is not a DXF file.''))"

definition demo_draw :: "configuration \<Rightarrow> drawing \<Rightarrow> error + string" where
  "demo_draw config doc = Inr (''<svg>'' @ str_nat (length (entities doc)) @ ''</svg>'')"

definition demo_query :: "drawing \<Rightarrow> string \<Rightarrow> error + entity list" where
  \<open>demo_query doc q = Inr (filter (\<lambda>e. q = ''*[layer=="'' @ layer e @ ''"]'') (entities doc))\<close>

definition demo_write_fails :: "(string \<Rightarrow> string option) \<Rightarrow> string \<Rightarrow> error option" where
  "demo_write_fails fs path =
     (if prefix ''/tmp/tmpdxf/'' path \<and> CHR ''/'' \<notin> set (drop 12 path) then None
      else Some (OtherError ''No such file or directory''))"

definition demo_exec ::
  "string \<Rightarrow> string list \<Rightarrow> drawing \<Rightarrow> drawing state \<Rightarrow> drawing \<times> drawing state \<times> thrown option" where
  "demo_exec snippet names doc s =
     (if snippet = ''for e in doc.modelspace().query('TEXT'): doc.modelspace().delete_entity(e)''
      then (doc\<lparr>entities := filter (\<lambda>e. dxftype e \<noteq> ''TEXT'') (entities doc)\<rparr>, s, None)
      else if snippet = ''doc.modelspace().add_line((0, 0), (1, 1))''
      then (doc\<lparr>entities := entities doc @ [\<lparr>dxftype = ''LINE'', layer = ''0''\<rparr>]\<rparr>, s, None)
      else if snippet = ''for e in doc.modelspace(): e.dxf.layer = '0' ''
      then (doc\<lparr>entities := map (\<lambda>e. e\<lparr>layer := ''0''\<rparr>) (entities doc)\<rparr>, s, None)
      else if snippet = ''raise SystemExit''
      then (doc, s, Some (Thrown BaseExceptionClass (Str [])))
      else if snippet = ''raise type('E', (Exception,), {'__str__': lambda e: 1 / 0})()''
      then (doc, s,
            Some (Thrown ExceptionClass
              (StrRaises (Thrown ExceptionClass (Str ''division by zero'')))))
      else (doc, s, Some (Thrown ExceptionClass (Str ''invalid syntax''))))"

fun demo_format_exc :: "thrown \<Rightarrow> string" where
  "demo_format_exc (Thrown cls (Str m)) = ''Traceback (most recent call last): '' @ m"
| "demo_format_exc (Thrown cls (StrRaises x)) =
     ''Traceback (most recent call last): <exception str() failed>''"

definition demo_model :: "string \<Rightarrow> nat \<Rightarrow> string \<Rightarrow> string \<Rightarrow> error + string" where
  "demo_model model max_tokens system user_message =
     (if user_message = ''remove all text'' then
        Inr (''EXPLANATION: I will delete every TEXT entity.\<newline>CODE:\<newline>```python\<newline>''
             @ ''for e in doc.modelspace().query('TEXT'): doc.modelspace().delete_entity(e)''
             @ ''\<newline>```'')
      else if user_message = ''stop the server'' then
        Inr ''EXPLANATION: Stopping.\<newline>CODE:\<newline>```python\<newline>raise SystemExit\<newline>```''
      else if user_message = ''make it nicer'' then
        Inr ''EXPLANATION: Trying.\<newline>CODE:\<newline>```python\<newline>make(nicer\<newline>```''
      else if user_message = ''raise something odd'' then
        Inr (''EXPLANATION: Raising.\<newline>CODE:\<newline>```python\<newline>''
             @ ''raise type('E', (Exception,), {'__str__': lambda e: 1 / 0})()''
             @ ''\<newline>```'')
      else if user_message = ''hello'' then
        Inr ''Hello! What would you like to change?''
      else Inl (OtherError ''Connection error.''))"

definition demo_lib :: "(drawing, entity, string) library" where
  "demo_lib =
     \<lparr>readfile = demo_readfile, draw_layout = demo_draw, doc_layers = layers,
      query = demo_query, modelspace = entities, exec_py = demo_exec,
      format_exc = demo_format_exc,
      messages_create = demo_model,
      saveas = (\<lambda>doc. Inr (''DXF '' @ str_nat (length (entities doc)))),
      write_fails = demo_write_fails,
      svg2rlg = Some, drawToFile = (\<lambda>g. ''PDF '' @ g),
      index_html = None\<rparr>"

definition demo_start :: "drawing state" where
  "demo_start = initial_state ''/tmp/tmpdxf'' Map.empty"

definition demo_loaded :: "drawing state" where
  "demo_loaded = snd (upload_dxf demo_lib ''plan.DXF'' ''FLOORPLAN'' demo_start)"

text \<open>
  The same library with an interpreter and a model that know one more snippet: it reaches
  the module of the server through \<open>sys.modules\<close> and sets its global \<open>current_doc\<close> to
  \<open>None\<close>.
\<close>

definition unbind_exec ::
  "string \<Rightarrow> string list \<Rightarrow> drawing \<Rightarrow> drawing state \<Rightarrow> drawing \<times> drawing state \<times> thrown option" where
  "unbind_exec snippet names doc s =
     (if snippet = ''import sys; sys.modules['app.main'].current_doc = None''
      then (doc, s\<lparr>current_doc := None\<rparr>, None)
      else demo_exec snippet names doc s)"

definition unbind_model :: "string \<Rightarrow> nat \<Rightarrow> string \<Rightarrow> string \<Rightarrow> error + string" where
  "unbind_model model max_tokens system user_message =
     (if user_message = ''close the drawing'' then
        Inr (''EXPLANATION: Closing.\<newline>CODE:\<newline>```python\<newline>''
             @ ''import sys; sys.modules['app.main'].current_doc = None''
             @ ''\<newline>```'')
      else demo_model model max_tokens system user_message)"

definition unbind_lib :: "(drawing, entity, string) library" where
  "unbind_lib = demo_lib\<lparr>exec_py := unbind_exec, messages_create := unbind_model\<rparr>"

section \<open>Two uploads at once\<close>

text \<open>
  The handlers are coroutines on one event loop: a handler runs until it finishes or
  reaches an \<open>await\<close>, and only there can another one run. \<open>upload_dxf\<close> has one
  \<open>await\<close>, behind the check of the filename, so a request being served is in one of three
  stages, and \<open>resume\<close> runs it to its next stage.
\<close>

datatype task = Waiting | Suspended | Done reply

fun resume ::
  "('d, 'e, 'g) library \<Rightarrow> string \<Rightarrow> string \<Rightarrow> task \<Rightarrow> 'd state \<Rightarrow> task \<times> 'd state" where
  "resume L filename content Waiting s =
     (if \<not> upload_check filename then (Done (HTTPException 400 ''File must be a DXF file''), s)
      else (Suspended, s))"
| "resume L filename content Suspended s =
     (case upload_process L filename content s of (r, s') \<Rightarrow> (Done r, s'))"
| "resume L filename content (Done r) s = (Done r, s)"

text \<open>Two upload requests under a schedule: each entry says whose turn it is, \<open>False\<close>
  for the first request and \<open>True\<close> for the second.\<close>

fun run_uploads ::
  "('d, 'e, 'g) library \<Rightarrow> string \<times> string \<Rightarrow> string \<times> string \<Rightarrow> bool list \<Rightarrow>
     task \<times> task \<times> 'd state \<Rightarrow> task \<times> task \<times> 'd state" where
  "run_uploads L a b [] c = c"
| "run_uploads L a b (turn # sched) (ta, tb, s) =
     (if turn then
        (case resume L (fst b) (snd b) tb s of
           (tb', s') \<Rightarrow> run_uploads L a b sched (ta, tb', s'))
      else
        (case resume L (fst a) (snd a) ta s of
           (ta', s') \<Rightarrow> run_uploads L a b sched (ta', tb, s')))"

section \<open>The first piece of a split\<close>


section \<open>Code that leaves the globals alone\<close>

text \<open>
  Whether the globals of the module survive a chat request is up to the code that is run.
  \<open>keeps_globals\<close> says of the interpreter that no run assigns \<open>current_doc\<close> or
  \<open>current_filename\<close>, or creates a document object.
\<close>

definition keeps_globals :: "('d, 'e, 'g) library \<Rightarrow> bool" where
  "keeps_globals L =
     (\<forall>snippet names doc s.
        case exec_py L snippet names doc s of
          (doc', s', r) \<Rightarrow>
            current_doc s' = current_doc s
            \<and> current_filename s' = current_filename s
            \<and> next_id s' = next_id s)"

section \<open>Facts for evaluating the definitions\<close>

lemmas demo_defs =
  demo_lib_def demo_readfile_def demo_draw_def demo_query_def demo_exec_def demo_model_def
  demo_write_fails_def demo_start_def demo_loaded_def initial_state_def sample_floorplan_def

lemmas endpoint_defs =
  upload_dxf_def upload_check_def upload_process_def get_svg_def get_layers_def chat_def
  export_dxf_def export_pdf_def serve_frontend_def dxf_to_svg_def get_layers_info_def
  execute_ezdxf_code_def path_join_def object_after_def

lemmas string_defs =
  py_endswith_def py_lower_def lower_char_def is_upper_def suffix_to_prefix
  py_strip_def is_space_def py_in_def py_replace_def

lemma demo_loaded_doc:
  "current_doc demo_loaded = Some (0, sample_floorplan)
   \<and> current_filename demo_loaded = ''plan.DXF''"
  by (simp add: demo_defs endpoint_defs string_defs str_nat.simps split: sum.splits)

section \<open>Uploads with another extension\<close>

text \<open>
  C8. \<open>POST /api/upload\<close> answers a file whose name, lower-cased, does not end in
  \<open>.dxf\<close> with status 400 and the detail \<open>File must be a DXF file\<close>. The whole state
  is as before: the document, the filename, and the files, none of which has been
  written. The reply is the same whatever the content of the file is, for the check
  stands before the content is read.
\<close>

theorem upload_rejects_other_names:
  assumes "\<not> py_endswith (py_lower filename) ''.dxf''"
  shows "upload_dxf L filename content s = (HTTPException 400 ''File must be a DXF file'', s)
         \<and> upload_dxf L filename content s = upload_dxf L filename content' s"
  using assms by (simp add: upload_dxf_def upload_check_def)

theorem upload_rejects_other_names_witness:
  "\<not> py_endswith (py_lower ''plan.DWG'') ''.dxf''
   \<and> upload_dxf demo_lib ''plan.DWG'' ''FLOORPLAN'' demo_loaded
       = (HTTPException 400 ''File must be a DXF file'', demo_loaded)
   \<and> current_doc demo_loaded = Some (0, sample_floorplan)
   \<and> current_filename demo_loaded = ''plan.DXF''"
proof -
  have h: "\<not> py_endswith (py_lower ''plan.DWG'') ''.dxf''"
    by (simp add: string_defs)
  from upload_rejects_other_names [OF h, of demo_lib "''FLOORPLAN''" demo_loaded] h
    demo_loaded_doc
  show ?thesis by blast
qed

section \<open>Requests before any upload\<close>

text \<open>
  C10. While \<open>current_doc\<close> is \<open>None\<close>, \<open>GET /api/svg\<close>, \<open>GET /api/layers\<close>,
  \<open>GET /api/export/dxf\<close> and \<open>GET /api/export/pdf\<close> raise an \<open>HTTPException\<close> with
  status 404 and \<open>POST /api/chat\<close> raises one with status 400; each leaves the state,
  and with it the document handle and the filename, as it was.
\<close>

theorem no_document_loaded:
  assumes "current_doc s = None"
  shows "get_svg L s = (HTTPException 404 ''No DXF file loaded'', s)
         \<and> get_layers L s = (HTTPException 404 ''No DXF file loaded'', s)
         \<and> export_dxf L s = (HTTPException 404 ''No DXF file loaded'', s)
         \<and> export_pdf L s = (HTTPException 404 ''No DXF file loaded'', s)
         \<and> chat L message s
             = (HTTPException 400 ''No DXF file loaded. Please upload a file first.'', s)"
  using assms by (simp add: get_svg_def get_layers_def export_dxf_def export_pdf_def chat_def)

theorem no_document_loaded_witness:
  "current_doc demo_start = None
   \<and> get_svg demo_lib demo_start = (HTTPException 404 ''No DXF file loaded'', demo_start)
   \<and> export_pdf demo_lib demo_start = (HTTPException 404 ''No DXF file loaded'', demo_start)
   \<and> chat demo_lib ''remove all text'' demo_start
       = (HTTPException 400 ''No DXF file loaded. Please upload a file first.'', demo_start)"
proof -
  have h: "current_doc demo_start = None" by (simp add: demo_start_def initial_state_def)
  from no_document_loaded [OF h, of demo_lib "''remove all text''"] h
  show ?thesis by blast
qed

section \<open>What a chat request does to the state\<close>


lemma execute_run:
  "fst (execute_ezdxf_code L snippet doc s) = fst (exec_py L snippet [''doc'', ''ezdxf''] doc s)
   \<and> fst (snd (execute_ezdxf_code L snippet doc s))
       = fst (snd (exec_py L snippet [''doc'', ''ezdxf''] doc s))"
  by (simp add: execute_ezdxf_code_def Let_def
      split: prod.splits option.splits thrown.splits str_of.splits)





section \<open>The message of a run that completes\<close>



section \<open>The rendering served\<close>



section \<open>Uploading a drawing\<close>

lemma demo_upload_reply:
  "fst (upload_dxf demo_lib ''plan.DXF'' ''FLOORPLAN'' demo_start)
     = UploadOk ''plan.DXF'' ''<svg>18</svg>''
         [\<lparr>name = ''0'', color = 7, entity_count = 0\<rparr>,
          \<lparr>name = ''Defpoints'', color = 7, entity_count = 0\<rparr>,
          \<lparr>name = ''WALLS'', color = 7, entity_count = 4\<rparr>,
          \<lparr>name = ''DOORS'', color = 4, entity_count = 2\<rparr>,
          \<lparr>name = ''DIMENSIONS'', color = 6, entity_count = 8\<rparr>,
          \<lparr>name = ''TEXT'', color = 3, entity_count = 4\<rparr>]"
  by code_simp

lemma demo_write_plan:
  "write_fails demo_lib (files demo_start) (path_join (temp_dir demo_start) ''plan.DXF'') = None"
  by (simp add: demo_lib_def demo_write_fails_def demo_start_def initial_state_def path_join_def)

text \<open>
  A file named \<open>sub/plan.dxf\<close> passes the check and its content loads, but the temporary
  directory has no directory \<open>sub\<close>: the write of the temporary file raises, ahead of the
  \<open>try\<close>, and the handler neither stores a document nor answers with \<open>success\<close>.
\<close>

theorem upload_under_a_missing_directory:
  "upload_check ''sub/plan.dxf''
   \<and> readfile demo_lib ''FLOORPLAN'' = Inr sample_floorplan
   \<and> fst (upload_dxf demo_lib ''sub/plan.dxf'' ''FLOORPLAN'' demo_start)
       = Unhandled (Thrown ExceptionClass (Str ''No such file or directory''))
   \<and> current_doc (snd (upload_dxf demo_lib ''sub/plan.dxf'' ''FLOORPLAN'' demo_start)) = None
   \<and> current_filename (snd (upload_dxf demo_lib ''sub/plan.dxf'' ''FLOORPLAN'' demo_start)) = []"
  by code_simp

text \<open>
  C6, amended. For a file whose name, lower-cased, ends in \<open>.dxf\<close>: if the file can be
  written under its name (joined to the temporary directory) and its content loads,
  \<open>POST /api/upload\<close> makes the loaded document (a new object) and the file's name the
  values of the two globals, and answers with \<open>success\<close>, the name, the rendering
  \<open>dxf_to_svg\<close> gives for that document and the layer information \<open>get_layers_info\<close>
  gives for it. If loading raises, or rendering, or collecting the layer information, the
  answer is an \<open>HTTPException\<close> with status 500. If the write raises, its exception
  leaves the handler and the state is as before.
\<close>

theorem upload_loads_document:
  assumes "py_endswith (py_lower filename) ''.dxf''"
  shows "case write_fails L (files s) (path_join (temp_dir s) filename) of
           Some e \<Rightarrow> upload_dxf L filename content s = (Unhandled (of_error e), s)
         | None \<Rightarrow>
             files (snd (upload_dxf L filename content s)) (path_join (temp_dir s) filename)
               = Some content
             \<and> (case readfile L content of
                   Inl e \<Rightarrow>
                     fst (upload_dxf L filename content s)
                       = HTTPException 500 (''Failed to process DXF: '' @ str_error e)
                 | Inr doc \<Rightarrow>
                     current_doc (snd (upload_dxf L filename content s)) = Some (next_id s, doc)
                     \<and> current_filename (snd (upload_dxf L filename content s)) = filename
                     \<and> fst (upload_dxf L filename content s)
                         = (case dxf_to_svg L doc of
                              Inl e \<Rightarrow>
                                HTTPException 500 (''Failed to process DXF: '' @ str_error e)
                            | Inr svg_content \<Rightarrow>
                                (case get_layers_info L doc of
                                   Inl e \<Rightarrow>
                                     HTTPException 500
                                       (''Failed to process DXF: '' @ str_error e)
                                 | Inr infos \<Rightarrow> UploadOk filename svg_content infos)))"
  using assms
  by (simp add: upload_dxf_def upload_check_def upload_process_def Let_def
      split: sum.splits option.splits)

theorem upload_loads_document_witness:
  "py_endswith (py_lower ''plan.DXF'') ''.dxf''
   \<and> write_fails demo_lib (files demo_start) (path_join (temp_dir demo_start) ''plan.DXF'') = None
   \<and> readfile demo_lib ''FLOORPLAN'' = Inr sample_floorplan
   \<and> current_doc (snd (upload_dxf demo_lib ''plan.DXF'' ''FLOORPLAN'' demo_start))
       = Some (0, sample_floorplan)
   \<and> current_filename (snd (upload_dxf demo_lib ''plan.DXF'' ''FLOORPLAN'' demo_start))
       = ''plan.DXF''
   \<and> fst (upload_dxf demo_lib ''plan.DXF'' ''FLOORPLAN'' demo_start)
       = UploadOk ''plan.DXF'' ''<svg>18</svg>''
         [\<lparr>name = ''0'', color = 7, entity_count = 0\<rparr>,
          \<lparr>name = ''Defpoints'', color = 7, entity_count = 0\<rparr>,
          \<lparr>name = ''WALLS'', color = 7, entity_count = 4\<rparr>,
          \<lparr>name = ''DOORS'', color = 4, entity_count = 2\<rparr>,
          \<lparr>name = ''DIMENSIONS'', color = 6, entity_count = 8\<rparr>,
          \<lparr>name = ''TEXT'', color = 3, entity_count = 4\<rparr>]"
proof -
  have h: "py_endswith (py_lower ''plan.DXF'') ''.dxf''" by (simp add: string_defs)
  have r: "readfile demo_lib ''FLOORPLAN'' = Inr sample_floorplan"
    by (simp add: demo_lib_def demo_readfile_def)
  have n: "next_id demo_start = 0" by (simp add: demo_start_def initial_state_def)
  from upload_loads_document
    [OF h, where L = demo_lib and s = demo_start and content = "''FLOORPLAN''"]
    r n demo_write_plan
  have "current_doc (snd (upload_dxf demo_lib ''plan.DXF'' ''FLOORPLAN'' demo_start))
          = Some (0, sample_floorplan)
        \<and> current_filename (snd (upload_dxf demo_lib ''plan.DXF'' ''FLOORPLAN'' demo_start))
          = ''plan.DXF''"
    by simp
  with h r demo_write_plan demo_upload_reply show ?thesis by blast
qed

section \<open>Snippets that raise\<close>








section \<open>What each endpoint does to the globals\<close>

lemma serve_frontend_state: "snd (serve_frontend L s) = s"
  by (simp add: serve_frontend_def split: option.splits)

lemma get_svg_state: "snd (get_svg L s) = s"
  by (simp add: get_svg_def split: option.splits prod.splits sum.splits)

lemma get_layers_state: "snd (get_layers L s) = s"
  by (simp add: get_layers_def split: option.splits prod.splits sum.splits)

lemma export_dxf_globals:
  "current_doc (snd (export_dxf L s)) = current_doc s
   \<and> current_filename (snd (export_dxf L s)) = current_filename s
   \<and> next_id (snd (export_dxf L s)) = next_id s"
  by (simp add: export_dxf_def Let_def split: option.splits prod.splits sum.splits)

lemma export_pdf_globals:
  "current_doc (snd (export_pdf L s)) = current_doc s
   \<and> current_filename (snd (export_pdf L s)) = current_filename s
   \<and> next_id (snd (export_pdf L s)) = next_id s"
  by (simp add: export_pdf_def Let_def split: option.splits prod.splits sum.splits)

lemma chat_state:
  "snd (chat L message s) = s
   \<or> (\<exists>i doc snippet.
         current_doc s = Some (i, doc)
         \<and> snd (chat L message s)
             = object_after i (fst (exec_py L snippet [''doc'', ''ezdxf''] doc s))
                 (fst (snd (exec_py L snippet [''doc'', ''ezdxf''] doc s))))"
proof (cases "current_doc s")
  case None
  then show ?thesis by (simp add: chat_def)
next
  case (Some p)
  obtain i doc where p: "p = (i, doc)" by (cases p)
  show ?thesis
  proof (cases "get_layers_info L doc")
    case (Inl e)
    with Some p show ?thesis by (simp add: chat_def)
  next
    case infos: (Inr ls)
    show ?thesis
    proof (cases "generate_ezdxf_code L message ls")
      case (Inl e)
      with Some p infos show ?thesis by (simp add: chat_def)
    next
      case (Inr q)
      obtain explanation snippet where q: "q = (explanation, snippet)" by (cases q)
      show ?thesis
      proof (cases "snippet = []")
        case True
        with Some p infos Inr q show ?thesis by (simp add: chat_def)
      next
        case False
        obtain doc' s' out where e: "execute_ezdxf_code L snippet doc s = (doc', s', out)"
          by (cases "execute_ezdxf_code L snippet doc s")
        from e execute_run [of L snippet doc s]
        have d: "doc' = fst (exec_py L snippet [''doc'', ''ezdxf''] doc s)"
          and t: "s' = fst (snd (exec_py L snippet [''doc'', ''ezdxf''] doc s))"
          by simp_all
        from Some p infos Inr q False e
        have "snd (chat L message s) = object_after i doc' s'"
          by (cases out) (simp_all add: chat_def)
        with Some p d t show ?thesis by blast
      qed
    qed
  qed
qed

lemma object_after_kept:
  assumes "keeps_globals L" and "current_doc s = Some (i, doc)"
  shows "map_option fst
           (current_doc (object_after i (fst (exec_py L snippet names doc s))
              (fst (snd (exec_py L snippet names doc s))))) = Some i
         \<and> current_filename (object_after i (fst (exec_py L snippet names doc s))
              (fst (snd (exec_py L snippet names doc s)))) = current_filename s
         \<and> next_id (object_after i (fst (exec_py L snippet names doc s))
              (fst (snd (exec_py L snippet names doc s)))) = next_id s"
proof -
  obtain doc' s' r where e: "exec_py L snippet names doc s = (doc', s', r)"
    by (cases "exec_py L snippet names doc s")
  from assms(1) e have "current_doc s' = current_doc s \<and> current_filename s' = current_filename s
      \<and> next_id s' = next_id s"
    unfolding keeps_globals_def by (metis (mono_tags, lifting) case_prod_conv)
  with assms(2) e show ?thesis by (simp add: object_after_def)
qed

lemma chat_globals:
  assumes "keeps_globals L"
  shows "map_option fst (current_doc (snd (chat L message s))) = map_option fst (current_doc s)
         \<and> current_filename (snd (chat L message s)) = current_filename s
         \<and> next_id (snd (chat L message s)) = next_id s"
  using chat_state [of L message s] object_after_kept [OF assms]
  by (elim disjE exE conjE) simp_all

lemma upload_globals:
  "(current_doc (snd (upload_dxf L filename content s)) = current_doc s
    \<and> current_filename (snd (upload_dxf L filename content s)) = current_filename s
    \<and> next_id (snd (upload_dxf L filename content s)) = next_id s)
   \<or> (\<exists>doc. upload_check filename \<and> readfile L content = Inr doc
         \<and> current_doc (snd (upload_dxf L filename content s)) = Some (next_id s, doc)
         \<and> current_filename (snd (upload_dxf L filename content s)) = filename
         \<and> next_id (snd (upload_dxf L filename content s)) = Suc (next_id s))"
proof (cases "upload_check filename")
  case False
  then show ?thesis by (simp add: upload_dxf_def)
next
  case True
  show ?thesis
  proof (cases "write_fails L (files s) (path_join (temp_dir s) filename)")
    case (Some e)
    with True show ?thesis by (simp add: upload_dxf_def upload_process_def Let_def)
  next
    case None
    show ?thesis
    proof (cases "readfile L content")
      case (Inl e)
      with True None show ?thesis by (simp add: upload_dxf_def upload_process_def Let_def)
    next
      case (Inr doc)
      with True None show ?thesis
        by (simp add: upload_dxf_def upload_process_def Let_def split: sum.splits)
    qed
  qed
qed

lemma handle_globals:
  assumes "keeps_globals L"
  shows "(map_option fst (current_doc (snd (handle L r s))) = map_option fst (current_doc s)
          \<and> current_filename (snd (handle L r s)) = current_filename s
          \<and> next_id (snd (handle L r s)) = next_id s)
         \<or> (\<exists>filename content doc. r = PostUpload filename content
               \<and> upload_check filename \<and> readfile L content = Inr doc
               \<and> current_doc (snd (handle L r s)) = Some (next_id s, doc)
               \<and> current_filename (snd (handle L r s)) = filename
               \<and> next_id (snd (handle L r s)) = Suc (next_id s))"
proof (cases r)
  case GetRoot
  then show ?thesis by (simp add: serve_frontend_state)
next
  case (PostUpload filename content)
  with upload_globals [of L filename content s] show ?thesis by auto
next
  case GetSvg
  then show ?thesis by (simp add: get_svg_state)
next
  case GetLayers
  then show ?thesis by (simp add: get_layers_state)
next
  case (PostChat message)
  with chat_globals [OF assms, of message s] show ?thesis by simp
next
  case GetExportDxf
  with export_dxf_globals [of L s] show ?thesis by simp
next
  case GetExportPdf
  with export_pdf_globals [of L s] show ?thesis by simp
qed

lemma reachable_invariant:
  assumes "reachable L s" and k: "keeps_globals L"
  shows "case current_doc s of
           None \<Rightarrow> current_filename s = []
         | Some (i, doc) \<Rightarrow> i < next_id s \<and> upload_check (current_filename s)"
  using assms(1)
proof (induction rule: reachable.induct)
  case (start tmp fs)
  show ?case by (simp add: initial_state_def)
next
  case (request s r)
  from handle_globals [OF k, of r s] show ?case
  proof
    assume "map_option fst (current_doc (snd (handle L r s))) = map_option fst (current_doc s)
      \<and> current_filename (snd (handle L r s)) = current_filename s
      \<and> next_id (snd (handle L r s)) = next_id s"
    with request.IH show ?thesis
      by (cases "current_doc s"; cases "current_doc (snd (handle L r s))") auto
  next
    assume "\<exists>filename content doc. r = PostUpload filename content
         \<and> upload_check filename \<and> readfile L content = Inr doc
         \<and> current_doc (snd (handle L r s)) = Some (next_id s, doc)
         \<and> current_filename (snd (handle L r s)) = filename
         \<and> next_id (snd (handle L r s)) = Suc (next_id s)"
    then show ?thesis by auto
  qed
qed

lemma demo_keeps_globals: "keeps_globals demo_lib"
  by (simp add: keeps_globals_def demo_lib_def demo_exec_def)

lemma demo_loaded_reachable: "reachable demo_lib demo_loaded"
proof -
  have "reachable demo_lib (initial_state ''/tmp/tmpdxf'' Map.empty :: drawing state)"
    by (rule reachable.start)
  then have "reachable demo_lib
      (snd (handle demo_lib (PostUpload ''plan.DXF'' ''FLOORPLAN'')
         (initial_state ''/tmp/tmpdxf'' Map.empty)))"
    by (rule reachable.request)
  then show ?thesis by (simp add: demo_loaded_def demo_start_def)
qed

lemma demo_loaded_next_id: "next_id demo_loaded = 1"
  by (simp add: demo_defs endpoint_defs string_defs split: sum.splits)

section \<open>Zero or one document\<close>



section \<open>Who assigns the document handle\<close>

text \<open>
  Two runs against the claim that only an upload assigns the handle and that nothing
  writes the document out. After an upload of \<open>plan.dxf\<close> and a \<open>GET /api/export/dxf\<close>
  the temporary directory holds the uploaded content and the saved document, which stay
  when the process ends. And a chat request whose snippet assigns the module's
  \<open>current_doc\<close> leaves the handle \<open>None\<close>, with the filename still stored.
\<close>

theorem written_out_and_unbound:
  "files demo_start ''/tmp/tmpdxf/plan_edited.dxf'' = None
   \<and> files (serve demo_lib [PostUpload ''plan.dxf'' ''FLOORPLAN'', GetExportDxf] demo_start)
         ''/tmp/tmpdxf/plan_edited.dxf''
       = Some ''DXF 18''
   \<and> files (serve demo_lib [PostUpload ''plan.dxf'' ''FLOORPLAN'', GetExportDxf] demo_start)
         ''/tmp/tmpdxf/plan.dxf''
       = Some ''FLOORPLAN''
   \<and> map_option fst (current_doc demo_loaded) = Some 0
   \<and> fst (handle unbind_lib (PostChat ''close the drawing'') demo_loaded)
       = Chat \<lparr>response = ''Closing.'',
               code = ''import sys; sys.modules['app.main'].current_doc = None'',
               executed = True, result = ''Changes applied successfully'',
               svg_updated = True\<rparr>
   \<and> current_doc (snd (handle unbind_lib (PostChat ''close the drawing'') demo_loaded)) = None
   \<and> current_filename (snd (handle unbind_lib (PostChat ''close the drawing'') demo_loaded))
       = ''plan.DXF''"
  by code_simp

text \<open>
  C3, amended. Of the handlers' own code only \<open>POST /api/upload\<close> assigns the document
  handle. A request that is neither an upload nor a chat leaves the identity of the object
  held and the filename as they were; \<open>GET /api/svg\<close> and \<open>GET /api/layers\<close> leave the
  whole state as it was. \<open>POST /api/chat\<close> assigns nothing itself: it leaves the state
  as the code it ran left it, so with code that leaves the globals alone the handle holds
  the same object, changed at most in place, under the same filename. An upload that
  passes the check, can be written and loads makes a new object the handle, in a state
  reached with such code an object other than the one held before. A starting process
  holds no document whatever the files are. The document does leave the memory of the
  process: the upload writes the uploaded content, \<open>GET /api/export/dxf\<close> the saved
  document and \<open>GET /api/export/pdf\<close> the rendering and the PDF, each to the path made of
  the temporary directory and the name (which an absolute name replaces).
\<close>

theorem handle_assigned_by_upload_only:
  "((\<forall>filename content. r \<noteq> PostUpload filename content) \<and> (\<forall>message. r \<noteq> PostChat message)
      \<longrightarrow> map_option fst (current_doc (snd (handle L r s))) = map_option fst (current_doc s)
          \<and> current_filename (snd (handle L r s)) = current_filename s)
   \<and> snd (handle L GetSvg s) = s \<and> snd (handle L GetLayers s) = s
   \<and> (snd (handle L (PostChat message) s) = s
       \<or> (\<exists>i doc snippet.
             current_doc s = Some (i, doc)
             \<and> snd (handle L (PostChat message) s)
                 = object_after i (fst (exec_py L snippet [''doc'', ''ezdxf''] doc s))
                     (fst (snd (exec_py L snippet [''doc'', ''ezdxf''] doc s)))))
   \<and> (keeps_globals L \<longrightarrow>
        map_option fst (current_doc (snd (handle L (PostChat message) s)))
          = map_option fst (current_doc s)
        \<and> current_filename (snd (handle L (PostChat message) s)) = current_filename s)
   \<and> (upload_check filename
        \<and> write_fails L (files s) (path_join (temp_dir s) filename) = None \<longrightarrow>
        files (snd (handle L (PostUpload filename content) s)) (path_join (temp_dir s) filename)
          = Some content
        \<and> (readfile L content = Inr doc \<longrightarrow>
             current_doc (snd (handle L (PostUpload filename content) s)) = Some (next_id s, doc)
             \<and> current_filename (snd (handle L (PostUpload filename content) s)) = filename
             \<and> (reachable L s \<and> keeps_globals L \<longrightarrow>
                  map_option fst (current_doc (snd (handle L (PostUpload filename content) s)))
                    \<noteq> map_option fst (current_doc s))))
   \<and> (current_doc s = Some (i, held) \<and> saveas L held = Inr bytes
        \<and> write_fails L (files s)
             (path_join (temp_dir s) (py_replace ''.dxf'' ''_edited.dxf'' (current_filename s)))
           = None \<longrightarrow>
        files (snd (handle L GetExportDxf s))
          (path_join (temp_dir s) (py_replace ''.dxf'' ''_edited.dxf'' (current_filename s)))
          = Some bytes)
   \<and> (current_doc s = Some (i, held)
        \<and> draw_layout L \<lparr>background_policy = BG_WHITE, color_policy = COLOR,
                           lineweight_scaling = 2\<rparr> held = Inr svg
        \<and> write_fails L (files s) (path_join (temp_dir s) ''temp.svg'') = None
        \<and> svg2rlg L svg = Some drawing
        \<and> write_fails L ((files s)(path_join (temp_dir s) ''temp.svg'' \<mapsto> svg))
             (path_join (temp_dir s) (py_replace ''.dxf'' ''.pdf'' (current_filename s)))
           = None \<longrightarrow>
        files (snd (handle L GetExportPdf s))
          (path_join (temp_dir s) (py_replace ''.dxf'' ''.pdf'' (current_filename s)))
          = Some (drawToFile L drawing)
        \<and> (path_join (temp_dir s) (py_replace ''.dxf'' ''.pdf'' (current_filename s))
             \<noteq> path_join (temp_dir s) ''temp.svg'' \<longrightarrow>
            files (snd (handle L GetExportPdf s)) (path_join (temp_dir s) ''temp.svg'')
              = Some svg))
   \<and> current_doc (initial_state tmp fs :: 'd state) = None"
proof (intro conjI impI)
  assume "(\<forall>filename content. r \<noteq> PostUpload filename content)
          \<and> (\<forall>message. r \<noteq> PostChat message)"
  then show "map_option fst (current_doc (snd (handle L r s))) = map_option fst (current_doc s)"
    and "current_filename (snd (handle L r s)) = current_filename s"
    using export_dxf_globals [of L s] export_pdf_globals [of L s]
    by (cases r; simp add: serve_frontend_state get_svg_state get_layers_state)+
next
  show "snd (handle L GetSvg s) = s" by (simp add: get_svg_state)
  show "snd (handle L GetLayers s) = s" by (simp add: get_layers_state)
  show "current_doc (initial_state tmp fs :: 'd state) = None"
    by (simp add: initial_state_def)
  show "snd (handle L (PostChat message) s) = s
       \<or> (\<exists>i doc snippet.
             current_doc s = Some (i, doc)
             \<and> snd (handle L (PostChat message) s)
                 = object_after i (fst (exec_py L snippet [''doc'', ''ezdxf''] doc s))
                     (fst (snd (exec_py L snippet [''doc'', ''ezdxf''] doc s))))"
    using chat_state [of L message s] by simp
next
  assume k: "keeps_globals L"
  from chat_globals [OF k, of message s]
  show "map_option fst (current_doc (snd (handle L (PostChat message) s)))
          = map_option fst (current_doc s)"
    and "current_filename (snd (handle L (PostChat message) s)) = current_filename s"
    by simp_all
next
  assume u: "upload_check filename
             \<and> write_fails L (files s) (path_join (temp_dir s) filename) = None"
  then show "files (snd (handle L (PostUpload filename content) s))
               (path_join (temp_dir s) filename) = Some content"
    by (simp add: upload_dxf_def upload_process_def Let_def split: sum.splits)
  assume l: "readfile L content = Inr doc"
  with u show new: "current_doc (snd (handle L (PostUpload filename content) s))
                      = Some (next_id s, doc)"
    and "current_filename (snd (handle L (PostUpload filename content) s)) = filename"
    by (simp_all add: upload_dxf_def upload_process_def Let_def split: sum.splits)
  assume "reachable L s \<and> keeps_globals L"
  then have "case current_doc s of
               None \<Rightarrow> current_filename s = []
             | Some (i, doc) \<Rightarrow> i < next_id s \<and> upload_check (current_filename s)"
    using reachable_invariant by blast
  with new
  show "map_option fst (current_doc (snd (handle L (PostUpload filename content) s)))
          \<noteq> map_option fst (current_doc s)"
    by (cases "current_doc s") auto
next
  assume "current_doc s = Some (i, held) \<and> saveas L held = Inr bytes
        \<and> write_fails L (files s)
             (path_join (temp_dir s) (py_replace ''.dxf'' ''_edited.dxf'' (current_filename s)))
           = None"
  then show "files (snd (handle L GetExportDxf s))
          (path_join (temp_dir s) (py_replace ''.dxf'' ''_edited.dxf'' (current_filename s)))
          = Some bytes"
    by (simp add: export_dxf_def Let_def)
next
  assume a: "current_doc s = Some (i, held)
        \<and> draw_layout L \<lparr>background_policy = BG_WHITE, color_policy = COLOR,
                           lineweight_scaling = 2\<rparr> held = Inr svg
        \<and> write_fails L (files s) (path_join (temp_dir s) ''temp.svg'') = None
        \<and> svg2rlg L svg = Some drawing
        \<and> write_fails L ((files s)(path_join (temp_dir s) ''temp.svg'' \<mapsto> svg))
             (path_join (temp_dir s) (py_replace ''.dxf'' ''.pdf'' (current_filename s)))
           = None"
  then show "files (snd (handle L GetExportPdf s))
          (path_join (temp_dir s) (py_replace ''.dxf'' ''.pdf'' (current_filename s)))
          = Some (drawToFile L drawing)"
    by (simp add: export_pdf_def Let_def)
  assume "path_join (temp_dir s) (py_replace ''.dxf'' ''.pdf'' (current_filename s))
             \<noteq> path_join (temp_dir s) ''temp.svg''"
  with a show "files (snd (handle L GetExportPdf s)) (path_join (temp_dir s) ''temp.svg'')
              = Some svg"
    by (simp add: export_pdf_def Let_def)
qed

lemma demo_paths:
  "path_join (temp_dir demo_loaded) ''b.dxf'' = ''/tmp/tmpdxf/b.dxf''"
  "path_join (temp_dir demo_loaded)
     (py_replace ''.dxf'' ''_edited.dxf'' (current_filename demo_loaded)) = ''/tmp/tmpdxf/plan.DXF''"
  "path_join (temp_dir demo_loaded)
     (py_replace ''.dxf'' ''.pdf'' (current_filename demo_loaded)) = ''/tmp/tmpdxf/plan.DXF''"
  "path_join (temp_dir demo_loaded) ''temp.svg'' = ''/tmp/tmpdxf/temp.svg''"
  by code_simp+

lemma demo_writes:
  "write_fails demo_lib fs ''/tmp/tmpdxf/b.dxf'' = None"
  "write_fails demo_lib fs ''/tmp/tmpdxf/plan.DXF'' = None"
  "write_fails demo_lib fs ''/tmp/tmpdxf/temp.svg'' = None"
  by (simp_all add: demo_lib_def demo_write_fails_def)

lemma demo_outputs:
  "saveas demo_lib sample_floorplan = Inr ''DXF 18''"
  "draw_layout demo_lib \<lparr>background_policy = BG_WHITE, color_policy = COLOR,
                          lineweight_scaling = 2\<rparr> sample_floorplan = Inr ''<svg>18</svg>''"
  "svg2rlg demo_lib ''<svg>18</svg>'' = Some ''<svg>18</svg>''"
  "drawToFile demo_lib ''<svg>18</svg>'' = ''PDF <svg>18</svg>''"
  by (simp_all add: demo_lib_def demo_draw_def sample_floorplan_def str_nat.simps digit_char_def)

theorem handle_assigned_by_upload_only_witness:
  "upload_check ''b.dxf''
   \<and> readfile demo_lib ''EMPTY'' = Inr \<lparr>layers = [(''0'', 7)], entities = []\<rparr>
   \<and> reachable demo_lib demo_loaded \<and> keeps_globals demo_lib
   \<and> current_doc demo_loaded = Some (0, sample_floorplan)
   \<and> map_option fst
         (current_doc (snd (handle demo_lib (PostChat ''remove all text'') demo_loaded)))
       = Some 0
   \<and> current_filename (snd (handle demo_lib (PostChat ''remove all text'') demo_loaded))
       = ''plan.DXF''
   \<and> map_option fst (current_doc (snd (handle demo_lib GetExportDxf demo_loaded))) = Some 0
   \<and> current_doc (snd (handle demo_lib (PostUpload ''b.dxf'' ''EMPTY'') demo_loaded))
       = Some (1, \<lparr>layers = [(''0'', 7)], entities = []\<rparr>)
   \<and> current_filename (snd (handle demo_lib (PostUpload ''b.dxf'' ''EMPTY'') demo_loaded))
       = ''b.dxf''
   \<and> files (snd (handle demo_lib (PostUpload ''b.dxf'' ''EMPTY'') demo_loaded))
         ''/tmp/tmpdxf/b.dxf'' = Some ''EMPTY''
   \<and> files (snd (handle demo_lib GetExportDxf demo_loaded)) ''/tmp/tmpdxf/plan.DXF''
       = Some ''DXF 18''
   \<and> files (snd (handle demo_lib GetExportPdf demo_loaded)) ''/tmp/tmpdxf/plan.DXF''
       = Some ''PDF <svg>18</svg>''
   \<and> files (snd (handle demo_lib GetExportPdf demo_loaded)) ''/tmp/tmpdxf/temp.svg''
       = Some ''<svg>18</svg>''"
proof -
  have c: "upload_check ''b.dxf''" by (simp add: upload_check_def string_defs)
  have l: "readfile demo_lib ''EMPTY'' = Inr \<lparr>layers = [(''0'', 7)], entities = []\<rparr>"
    by (simp add: demo_lib_def demo_readfile_def)
  have h: "current_doc demo_loaded = Some (0, sample_floorplan)"
    and f: "current_filename demo_loaded = ''plan.DXF''"
    using demo_loaded_doc by simp_all
  have d: "''/tmp/tmpdxf/plan.DXF'' \<noteq> ''/tmp/tmpdxf/temp.svg''" by simp
  note t = handle_assigned_by_upload_only
    [where r = GetExportDxf and L = demo_lib and s = demo_loaded
       and message = "''remove all text''"
       and filename = "''b.dxf''" and content = "''EMPTY''"
       and doc = "\<lparr>layers = [(''0'', 7)], entities = []\<rparr>"
       and i = 0 and held = sample_floorplan and bytes = "''DXF 18''"
       and svg = "''<svg>18</svg>''" and drawing = "''<svg>18</svg>''"
       and tmp = "''/tmp''" and fs = Map.empty,
     unfolded demo_paths]
  from t c l h f d demo_loaded_reachable demo_keeps_globals demo_loaded_next_id
    demo_writes demo_outputs
  show ?thesis by auto
qed

section \<open>The later of two concurrent uploads wins\<close>

lemma resume_is_upload:
  "resume L filename content
      (fst (resume L filename content Waiting s)) (snd (resume L filename content Waiting s))
     = (Done (fst (upload_dxf L filename content s)), snd (upload_dxf L filename content s))"
  by (simp add: upload_dxf_def split_beta)

lemma upload_process_temp_dir:
  "temp_dir (snd (upload_process L filename content s)) = temp_dir s"
  by (simp add: upload_process_def Let_def split: sum.splits option.splits)

lemma upload_process_reply:
  assumes "write_fails L (files s) (path_join (temp_dir s) filename) = None"
    and "write_fails L (files s0) (path_join (temp_dir s0) filename) = None"
  shows "fst (upload_process L filename content s) = fst (upload_process L filename content s0)"
  using assms by (simp add: upload_process_def Let_def split: sum.splits)

lemma upload_process_loads:
  assumes "write_fails L (files s) (path_join (temp_dir s) filename) = None"
    and "readfile L content = Inr doc"
  shows "current_doc (snd (upload_process L filename content s)) = Some (next_id s, doc)"
    and "current_filename (snd (upload_process L filename content s)) = filename"
    and "files (snd (upload_process L filename content s)) (path_join (temp_dir s) filename)
           = Some content"
  using assms by (simp_all add: upload_process_def Let_def split: sum.splits)

lemma shuffles_two:
  "shuffles [False, False] [True, True]
     = {[False, False, True, True], [False, True, False, True], [False, True, True, False],
        [True, False, False, True], [True, False, True, False], [True, True, False, False]}"
  by (auto simp add: shuffles.simps)

lemma demo_upload_a:
  "fst (upload_dxf demo_lib ''a.dxf'' ''FLOORPLAN'' demo_start)
     = UploadOk ''a.dxf'' ''<svg>18</svg>''
         [\<lparr>name = ''0'', color = 7, entity_count = 0\<rparr>,
          \<lparr>name = ''Defpoints'', color = 7, entity_count = 0\<rparr>,
          \<lparr>name = ''WALLS'', color = 7, entity_count = 4\<rparr>,
          \<lparr>name = ''DOORS'', color = 4, entity_count = 2\<rparr>,
          \<lparr>name = ''DIMENSIONS'', color = 6, entity_count = 8\<rparr>,
          \<lparr>name = ''TEXT'', color = 3, entity_count = 4\<rparr>]"
  by code_simp

lemma demo_upload_b:
  "fst (upload_dxf demo_lib ''b.dxf'' ''EMPTY'' demo_start)
     = UploadOk ''b.dxf'' ''<svg>0</svg>'' [\<lparr>name = ''0'', color = 7, entity_count = 0\<rparr>]"
  by code_simp

lemma demo_write_a_b:
  "\<forall>fs. write_fails demo_lib fs (path_join (temp_dir demo_start) ''a.dxf'') = None"
  "\<forall>fs. write_fails demo_lib fs (path_join (temp_dir demo_start) ''b.dxf'') = None"
  by (simp_all add: demo_defs endpoint_defs string_defs)

text \<open>
  C7. Nothing guards the globals. When two uploads that pass the check, whose temporary
  files can be written and whose content loads, are served concurrently, in any
  interleaving of their stages, each client gets the reply it would have got alone, with
  no sign of the other request, and the document and the filename left in the globals are
  those of the request whose second stage ran last: it has overwritten what the other one
  stored.
\<close>

theorem later_upload_overwrites:
  assumes "upload_check fa" and "upload_check fb"
    and "\<forall>fs. write_fails L fs (path_join (temp_dir s) fa) = None"
    and "\<forall>fs. write_fails L fs (path_join (temp_dir s) fb) = None"
    and "readfile L ca = Inr da" and "readfile L cb = Inr db"
    and "sched \<in> shuffles [False, False] [True, True]"
  shows "case run_uploads L (fa, ca) (fb, cb) sched (Waiting, Waiting, s) of
           (ta, tb, s') \<Rightarrow>
             ta = Done (fst (upload_dxf L fa ca s)) \<and> tb = Done (fst (upload_dxf L fb cb s))
             \<and> (if last sched
                 then map_option snd (current_doc s') = Some db \<and> current_filename s' = fb
                 else map_option snd (current_doc s') = Some da \<and> current_filename s' = fa)"
proof -
  have wa: "write_fails L (files t) (path_join (temp_dir t) fa) = None"
    if "temp_dir t = temp_dir s" for t
    using assms(3) that by simp
  have wb: "write_fails L (files t) (path_join (temp_dir t) fb) = None"
    if "temp_dir t = temp_dir s" for t
    using assms(4) that by simp
  have ra: "fst (upload_process L fa ca t) = fst (upload_dxf L fa ca s)"
    if "temp_dir t = temp_dir s" for t
    using assms(1) upload_process_reply [of L t fa s ca] wa [OF that] wa [of s]
    by (simp add: upload_dxf_def)
  have rb: "fst (upload_process L fb cb t) = fst (upload_dxf L fb cb s)"
    if "temp_dir t = temp_dir s" for t
    using assms(2) upload_process_reply [of L t fb s cb] wb [OF that] wb [of s]
    by (simp add: upload_dxf_def)
  have la: "current_doc (snd (upload_process L fa ca t)) = Some (next_id t, da)"
    "current_filename (snd (upload_process L fa ca t)) = fa"
    if "temp_dir t = temp_dir s" for t
    using upload_process_loads [OF wa [OF that] assms(5)] by simp_all
  have lb: "current_doc (snd (upload_process L fb cb t)) = Some (next_id t, db)"
    "current_filename (snd (upload_process L fb cb t)) = fb"
    if "temp_dir t = temp_dir s" for t
    using upload_process_loads [OF wb [OF that] assms(6)] by simp_all
  from assms(7) consider
      "sched = [False, False, True, True]" | "sched = [False, True, False, True]"
    | "sched = [False, True, True, False]" | "sched = [True, False, False, True]"
    | "sched = [True, False, True, False]" | "sched = [True, True, False, False]"
    unfolding shuffles_two by blast
  then show ?thesis
    using assms(1,2)
    by cases (simp_all add: split_beta ra rb la lb upload_process_temp_dir)
qed

theorem later_upload_overwrites_witness:
  "upload_check ''a.dxf'' \<and> upload_check ''b.dxf''
   \<and> (\<forall>fs. write_fails demo_lib fs (path_join (temp_dir demo_start) ''a.dxf'') = None)
   \<and> (\<forall>fs. write_fails demo_lib fs (path_join (temp_dir demo_start) ''b.dxf'') = None)
   \<and> readfile demo_lib ''FLOORPLAN'' = Inr sample_floorplan
   \<and> readfile demo_lib ''EMPTY'' = Inr \<lparr>layers = [(''0'', 7)], entities = []\<rparr>
   \<and> [False, True, False, True] \<in> shuffles [False, False] [True, True]
   \<and> (case run_uploads demo_lib (''a.dxf'', ''FLOORPLAN'') (''b.dxf'', ''EMPTY'')
              [False, True, False, True] (Waiting, Waiting, demo_start) of
         (ta, tb, s') \<Rightarrow>
           ta = Done (UploadOk ''a.dxf'' ''<svg>18</svg>''
                  [\<lparr>name = ''0'', color = 7, entity_count = 0\<rparr>,
                   \<lparr>name = ''Defpoints'', color = 7, entity_count = 0\<rparr>,
                   \<lparr>name = ''WALLS'', color = 7, entity_count = 4\<rparr>,
                   \<lparr>name = ''DOORS'', color = 4, entity_count = 2\<rparr>,
                   \<lparr>name = ''DIMENSIONS'', color = 6, entity_count = 8\<rparr>,
                   \<lparr>name = ''TEXT'', color = 3, entity_count = 4\<rparr>])
           \<and> tb = Done (UploadOk ''b.dxf'' ''<svg>0</svg>''
                  [\<lparr>name = ''0'', color = 7, entity_count = 0\<rparr>])
           \<and> map_option snd (current_doc s') = Some \<lparr>layers = [(''0'', 7)], entities = []\<rparr>
           \<and> current_filename s' = ''b.dxf'')"
proof -
  have a: "upload_check ''a.dxf''" and b: "upload_check ''b.dxf''"
    by (simp_all add: upload_check_def string_defs)
  note wa = demo_write_a_b(1) and wb = demo_write_a_b(2)
  have la: "readfile demo_lib ''FLOORPLAN'' = Inr sample_floorplan"
    and lb: "readfile demo_lib ''EMPTY'' = Inr \<lparr>layers = [(''0'', 7)], entities = []\<rparr>"
    by (simp_all add: demo_lib_def demo_readfile_def)
  have m: "[False, True, False, True] \<in> shuffles [False, False] [True, True]"
    by (simp add: shuffles_two)
  from later_upload_overwrites [OF a b wa wb la lb m] a b wa wb la lb m
  show ?thesis
    by (simp add: split_beta demo_upload_a demo_upload_b)
qed

section \<open>Where a separator is found\<close>



lemma py_find_NoneD:
  "py_find sep s = None \<Longrightarrow> \<not> prefix sep (drop j s)"
proof (induction s arbitrary: j)
  case Nil
  then show ?case by (simp split: if_splits)
next
  case (Cons c cs)
  then have n: "\<not> prefix sep (c # cs)" and r: "py_find sep cs = None"
    by (simp_all split: if_splits)
  show ?case
  proof (cases j)
    case 0
    with n show ?thesis by simp
  next
    case (Suc k)
    with Cons.IH [OF r, of k] show ?thesis by simp
  qed
qed

lemma py_find_NoneI:
  "(\<forall>j\<le>length s. \<not> prefix sep (drop j s)) \<Longrightarrow> py_find sep s = None"
proof (induction s)
  case Nil
  then show ?case by auto
next
  case (Cons c cs)
  then have n: "\<not> prefix sep (c # cs)" by force
  have "\<forall>j\<le>length cs. \<not> prefix sep (drop j cs)"
  proof (intro allI impI)
    fix j assume "j \<le> length cs"
    with Cons.prems have "\<not> prefix sep (drop (Suc j) (c # cs))" by force
    then show "\<not> prefix sep (drop j cs)" by simp
  qed
  with Cons.IH n show ?case by simp
qed

lemma prefix_drop_take:
  "prefix sep (drop j (take n s)) \<Longrightarrow> prefix sep (drop j s) \<and> (sep = [] \<or> j + length sep \<le> n)"
proof -
  assume a: "prefix sep (drop j (take n s))"
  have e: "drop j (take n s) = take (n - j) (drop j s)" by (simp add: drop_take)
  have "prefix (take (n - j) (drop j s)) (drop j s)" by (rule take_is_prefix)
  with a e have p: "prefix sep (drop j s)" by (metis prefix_order.trans)
  from a e have "length sep \<le> n - j" using prefix_length_le by fastforce
  then have "sep = [] \<or> j + length sep \<le> n" by (cases sep) auto
  with p show ?thesis by blast
qed




lemma py_find_take_None':
  assumes "sep \<noteq> []" and "py_find sep s = None"
  shows "py_find sep (take n s) = None"
proof (rule py_find_NoneI, intro allI impI notI)
  fix j assume "prefix sep (drop j (take n s))"
  from prefix_drop_take [OF this] have "prefix sep (drop j s)" by simp
  with py_find_NoneD [OF assms(2)] show False by blast
qed



section \<open>Splitting at the markers\<close>













lemma generate_returns_parse:
  assumes "messages_create L ''claude-sonnet-4-20250514'' 1024
             (prompt_head
              @ py_join ''\<newline>''
                  (map (\<lambda>l. ''- '' @ name l @ '': '' @ str_nat (entity_count l) @ '' entities'')
                     infos)
              @ prompt_tail)
             message = Inr answer"
  shows "generate_ezdxf_code L message infos = parse_response answer"
  using assms by (simp add: generate_ezdxf_code_def Let_def)

section \<open>The explanation and the snippet taken from an answer\<close>




end
